theory Spec2Isabelle
  imports Complex_Main "HOL-Library.Sublist"
begin

section \<open>Python strings and integers\<close>

text \<open>
  A Python \<open>str\<close> is modelled as a \<open>string\<close>, one \<open>char\<close> for each character; the
  texts that matter below (class names, driver messages, decimal numerals) are ASCII.
  Python's \<open>int\<close> is unbounded and is modelled as \<open>int\<close>.
\<close>

text \<open>\<open>needle in haystack\<close> on two strings: some position of the haystack starts with the needle.\<close>

fun str_in :: "string \<Rightarrow> string \<Rightarrow> bool" where
  "str_in needle [] = (needle = [])"
| "str_in needle (c # cs) = (prefix needle (c # cs) \<or> str_in needle cs)"

text \<open>\<open>str.lower()\<close>: the letters A to Z are mapped to a to z; every other character is kept.\<close>

definition lower_char :: "char \<Rightarrow> char" where
  "lower_char c =
     (case map_of (zip ''ABCDEFGHIJKLMNOPQRSTUVWXYZ'' ''abcdefghijklmnopqrstuvwxyz'') c of
        Some d \<Rightarrow> d
      | None \<Rightarrow> c)"

definition lower :: "string \<Rightarrow> string" where
  "lower s = map lower_char s"

text \<open>\<open>str(n)\<close> for an integer: its decimal numeral, with a leading minus sign when negative.\<close>

fun str_nat :: "nat \<Rightarrow> string" where
  "str_nat n =
     (if n < 10 then [''0123456789'' ! n] else str_nat (n div 10) @ [''0123456789'' ! (n mod 10)])"

declare str_nat.simps [simp del]

definition str_int :: "int \<Rightarrow> string" where
  "str_int i = (if i < 0 then CHR ''-'' # str_nat (nat (- i)) else str_nat (nat i))"

section \<open>Exceptions (app/utils/fastapi_utils/exception.py and the libraries' classes)\<close>

text \<open>A per-field validation error of pydantic: the field's location and the message.\<close>

record field_error =
  loc :: string
  msg :: string

text \<open>
  The exception classes that the application raises or registers a handler for. The
  classes of \<open>exception.py\<close> carry their \<open>detail\<close>, a string wherever the repository
  and the framework raise one; \<open>HTTPException\<close> and a direct
  \<open>ExceptionBase\<close> also carry the status code; \<open>IntegrityError\<close> carries \<open>str(e)\<close>;
  \<open>OtherError cls text\<close> stands for an exception of any other class \<open>cls\<close>, one that
  derives from none of the classes a handler is registered for (\<open>OperationalError\<close>,
  \<open>KeyError\<close>, ...).
\<close>

datatype exc =
    ExceptionBase nat string
  | NotFoundException string
  | BadRequestException string
  | UnauthorizedException string
  | UnprocessableEntity string
  | ConflictException string
  | SystemException string
  | HTTPException nat string
  | RequestValidationError "field_error list"
  | ValidationError "field_error list"
  | IntegrityError string
  | OtherError string string

section \<open>The Product model (app/db/base.py, app/db/models/product.py)\<close>

text \<open>
  \<open>id\<close> (\<open>int_pk\<close>: integer primary key, autoincrement), \<open>created_at\<close> and \<open>updated_at\<close>
  are assigned by the store at INSERT and are \<open>None\<close> on an object that was never flushed.
  \<open>price\<close> holds the integer that the input contract delivers; its column is declared
  \<open>Float\<close> (see \<open>product_columns\<close>), which keeps every integer up to \<open>2 ^ 53\<close> as it is.
\<close>

record product =
  id_pk :: "int option"
  created_at :: "int option"
  updated_at :: "int option"
  name :: string
  description :: string
  price :: int
  stock :: int

text \<open>The column declarations of the table, as data.\<close>

datatype sa_type = Integer | Float | String nat | DateTime

record column =
  col_name :: string
  col_type :: sa_type
  col_unique :: bool
  col_check :: "(string \<times> string) option"

definition product_columns :: "column list" where
  "product_columns =
    [\<lparr>col_name = ''id'', col_type = Integer, col_unique = True, col_check = None\<rparr>,
     \<lparr>col_name = ''created_at'', col_type = DateTime, col_unique = False, col_check = None\<rparr>,
     \<lparr>col_name = ''updated_at'', col_type = DateTime, col_unique = False, col_check = None\<rparr>,
     \<lparr>col_name = ''name'', col_type = String 256, col_unique = True, col_check = None\<rparr>,
     \<lparr>col_name = ''description'', col_type = String 1024, col_unique = False, col_check = None\<rparr>,
     \<lparr>col_name = ''price'', col_type = Float, col_unique = False,
       col_check = Some (''price >= 0'', ''non_negative_price'')\<rparr>,
     \<lparr>col_name = ''stock'', col_type = Integer, col_unique = False,
       col_check = Some (''stock >= 0'', ''non_negative_stock'')\<rparr>]"

text \<open>The declaration of a column, and its type, by the column's name.\<close>

definition product_column :: "string \<Rightarrow> column option" where
  "product_column n = find (\<lambda>c. col_name c = n) product_columns"

definition column_type :: "string \<Rightarrow> sa_type option" where
  "column_type n = map_option col_type (product_column n)"

section \<open>The session over the store (sqlalchemy's AsyncSession, one table)\<close>

text \<open>
  The store is an external collaborator; it is modelled with the behaviour of SQLite, the
  engine of the repository's integration tests:
  \<^item> \<open>table\<close> is the committed content of table \<open>product\<close>, in the store's order;
  \<^item> \<open>new\<close> and \<open>deleted\<close> are the objects handed to \<open>db.add\<close> and \<open>db.delete\<close> and
    not flushed yet (the session factory sets \<open>autoflush=False\<close>);
  \<^item> \<open>now\<close> is the store's clock, read by \<open>func.now()\<close>;
  \<^item> \<open>calls\<close> records the transaction calls made on the session, oldest first.
\<close>

datatype call = Add | Delete | Commit | Rollback

record session =
  table :: "product list"
  new :: "product list"
  deleted :: "product list"
  now :: int
  calls :: "call list"

definition db_add :: "session \<Rightarrow> product \<Rightarrow> session" where
  "db_add s obj = s\<lparr>new := new s @ [obj], calls := calls s @ [Add]\<rparr>"

definition db_delete :: "session \<Rightarrow> product \<Rightarrow> session" where
  "db_delete s obj = s\<lparr>deleted := deleted s @ [obj], calls := calls s @ [Delete]\<rparr>"

definition db_rollback :: "session \<Rightarrow> session" where
  "db_rollback s = s\<lparr>new := [], deleted := [], calls := calls s @ [Rollback]\<rparr>"

text \<open>
  The rowid that SQLite gives a row inserted without one: 1 in an empty table, otherwise
  one more than the largest rowid present.
\<close>

definition next_rowid :: "product list \<Rightarrow> int" where
  "next_rowid tbl =
     (case List.map_filter id_pk tbl of [] \<Rightarrow> 1 | i # is \<Rightarrow> fold max is i + 1)"

text \<open>
  INSERT of one object at time \<open>t\<close>. The constraints of \<open>product_columns\<close> are checked in
  SQLite's order: the CHECK constraints, the primary key, the unique index on \<open>name\<close>. The
  stored row carries the primary key and the two timestamps (\<open>default=func.now()\<close>).
\<close>

definition insert_row :: "int \<Rightarrow> product list \<Rightarrow> product \<Rightarrow> exc + product" where
  "insert_row t tbl obj =
     (if price obj < 0 then Inl (IntegrityError ''CHECK constraint failed: non_negative_price'')
      else if stock obj < 0 then Inl (IntegrityError ''CHECK constraint failed: non_negative_stock'')
      else if id_pk obj \<noteq> None \<and> id_pk obj \<in> set (map id_pk tbl)
        then Inl (IntegrityError ''UNIQUE constraint failed: product.id'')
      else if name obj \<in> set (map name tbl)
        then Inl (IntegrityError ''UNIQUE constraint failed: product.name'')
      else Inr (obj\<lparr>
        id_pk := Some (case id_pk obj of Some i \<Rightarrow> i | None \<Rightarrow> next_rowid tbl),
        created_at := Some (case created_at obj of Some c \<Rightarrow> c | None \<Rightarrow> t),
        updated_at := Some (case updated_at obj of Some u \<Rightarrow> u | None \<Rightarrow> t)\<rparr>))"

text \<open>
  The flush of the pending objects, in the order they were added: the new table and the
  rows inserted, or the first error.
\<close>

fun flush_new :: "int \<Rightarrow> product list \<Rightarrow> product list \<Rightarrow> exc + (product list \<times> product list)" where
  "flush_new t tbl [] = Inr (tbl, [])"
| "flush_new t tbl (obj # objs) =
     (case insert_row t tbl obj of
        Inl e \<Rightarrow> Inl e
      | Inr row \<Rightarrow>
         (case flush_new t (tbl @ [row]) objs of
            Inl e \<Rightarrow> Inl e
          | Inr (tbl', rows) \<Rightarrow> Inr (tbl', row # rows)))"

text \<open>DELETE of the objects marked for deletion, by primary key.\<close>

definition delete_rows :: "product list \<Rightarrow> product list \<Rightarrow> product list" where
  "delete_rows tbl objs = filter (\<lambda>r. id_pk r \<notin> set (map id_pk objs)) tbl"

text \<open>
  \<open>db.commit()\<close>. The argument \<open>flt\<close> is the failure, if any, that the store reports at this
  commit for a cause outside the model (a lost connection, a locked database, an error
  text of another engine). Without one, the pending objects are flushed and the
  transaction is committed; the rows inserted are returned, for the primary keys that
  the flush writes back into the session's objects. When commit raises, nothing is
  committed.
\<close>

definition db_commit :: "exc option \<Rightarrow> session \<Rightarrow> (exc + product list) \<times> session" where
  "db_commit flt s =
     (let s1 = s\<lparr>calls := calls s @ [Commit]\<rparr> in
      case flt of
        Some e \<Rightarrow> (Inl e, s1)
      | None \<Rightarrow>
         (case flush_new (now s) (table s) (new s) of
            Inl e \<Rightarrow> (Inl e, s1)
          | Inr (tbl, rows) \<Rightarrow>
              (Inr rows, s1\<lparr>table := delete_rows tbl (deleted s), new := [], deleted := []\<rparr>)))"

text \<open>\<open>db.refresh(obj)\<close>: the object's attributes are loaded again from its row.\<close>

definition db_refresh :: "session \<Rightarrow> product \<Rightarrow> exc + product" where
  "db_refresh s obj =
     (case find (\<lambda>r. id_pk r = id_pk obj) (table s) of
        Some row \<Rightarrow> Inr row
      | None \<Rightarrow> Inl (OtherError ''InvalidRequestError'' ''Could not refresh instance''))"

text \<open>
  A statement \<open>select(self.model)\<close> with its optional clauses \<open>.where(self.model.id == i)\<close>,
  \<open>.limit(n)\<close> and \<open>.offset(k)\<close>. In SQLite a negative OFFSET counts as 0 and a negative
  LIMIT as no limit.
\<close>

record select =
  where_id :: "int option"
  limit :: "int option"
  offset :: "int option"

definition select_model :: select where
  "select_model = \<lparr>where_id = None, limit = None, offset = None\<rparr>"

definition execute :: "session \<Rightarrow> select \<Rightarrow> product list" where
  "execute s stmt =
     (let matching = (case where_id stmt of
                        None \<Rightarrow> table s
                      | Some i \<Rightarrow> filter (\<lambda>r. id_pk r = Some i) (table s));
          skipped = (case offset stmt of None \<Rightarrow> matching | Some k \<Rightarrow> drop (nat k) matching)
      in case limit stmt of
           None \<Rightarrow> skipped
         | Some n \<Rightarrow> if n < 0 then skipped else take (nat n) skipped)"

section \<open>QueryUtil (app/utils/base/query\_util.py)\<close>

definition query_all :: "session \<Rightarrow> select \<Rightarrow> product list" where
  "query_all s statement = execute s statement"

text \<open>\<open>res.scalar()\<close>: the first row's entity, or \<open>None\<close> when there is no row.\<close>

definition query_one :: "session \<Rightarrow> select \<Rightarrow> product option" where
  "query_one s statement = (case execute s statement of [] \<Rightarrow> None | r # _ \<Rightarrow> Some r)"

section \<open>RepositoryBase (app/utils/base/repository.py), for ProductRepository\<close>

text \<open>\<open>self.model.__name__\<close> of \<open>ProductRepository\<close>.\<close>

definition model_name :: string where
  "model_name = ''Product''"

definition get_one :: "session \<Rightarrow> int \<Rightarrow> product option" where
  "get_one s model_id = query_one s (select_model\<lparr>where_id := Some model_id\<rparr>)"

definition get :: "session \<Rightarrow> int \<Rightarrow> exc + product" where
  "get s model_id =
     (case get_one s model_id of
        Some obj \<Rightarrow> Inr obj
      | None \<Rightarrow>
          Inl (NotFoundException (model_name @ '' with id '' @ str_int model_id @ '' not found'')))"

text \<open>
  The object as the flush leaves it: \<open>obj\<close> was added last, so it is inserted last, and
  the flush writes the primary key of its row back into it.
\<close>

definition flushed :: "product \<Rightarrow> product list \<Rightarrow> product" where
  "flushed obj rows = (case rev rows of [] \<Rightarrow> obj | row # _ \<Rightarrow> obj\<lparr>id_pk := id_pk row\<rparr>)"

text \<open>
  \<open>save_object\<close>: the \<open>try\<close> block is the commit and the optional refresh; the handler
  catches \<open>IntegrityError\<close> only, and any other exception leaves the function as raised.
\<close>

definition save_object :: "exc option \<Rightarrow> session \<Rightarrow> product \<Rightarrow> bool \<Rightarrow> (exc + product) \<times> session" where
  "save_object flt s obj refresh =
     (let s1 = db_add s obj;
          (r, s2) = (case db_commit flt s1 of
                       (Inl e, s') \<Rightarrow> (Inl e, s')
                     | (Inr rows, s') \<Rightarrow>
                         if refresh then (db_refresh s' (flushed obj rows), s')
                         else (Inr (flushed obj rows), s'))
      in case r of
           Inl (IntegrityError m) \<Rightarrow>
             (let s3 = db_rollback s2 in
              if str_in ''UNIQUE constraint failed'' m \<or> str_in ''duplicate key'' (lower m)
              then (Inl (ConflictException ''A record with these details already exists.''), s3)
              else (Inl (IntegrityError m), s3))
         | _ \<Rightarrow> (r, s2))"

definition list_objs :: "session \<Rightarrow> int \<Rightarrow> int \<Rightarrow> product list" where
  "list_objs s page_number page_size =
     query_all s (select_model\<lparr>limit := Some page_size, offset := Some (page_number * page_size)\<rparr>)"

definition delete :: "exc option \<Rightarrow> session \<Rightarrow> int \<Rightarrow> (exc + unit) \<times> session" where
  "delete flt s model_id =
     (case get s model_id of
        Inl e \<Rightarrow> (Inl e, s)
      | Inr obj \<Rightarrow>
         (case db_commit flt (db_delete s obj) of
            (Inl e, s') \<Rightarrow> (Inl e, s')
          | (Inr _, s') \<Rightarrow> (Inr (), s')))"

text \<open>\<open>select(func.count()).select_from(stmt.subquery())\<close>: the number of rows of \<open>stmt\<close>.\<close>

definition get_rowcount :: "session \<Rightarrow> select \<Rightarrow> int" where
  "get_rowcount s stmt = int (length (execute s stmt))"

record paginated =
  records :: "product list"
  record_count :: int
  page_count :: int

text \<open>
  \<open>list_paginated\<close>, called without loader options. \<open>row_count / page_size\<close> is Python's
  true division and \<open>ceil\<close> the ceiling of the quotient, taken here over the reals (the
  float quotient has the same ceiling for every count below \<open>2 ^ 53\<close>).
\<close>

definition list_paginated :: "session \<Rightarrow> int \<Rightarrow> int \<Rightarrow> paginated" where
  "list_paginated s page_number page_size =
     (let stmt = select_model;
          limit_stmt = stmt\<lparr>limit := Some page_size, offset := Some (page_number * page_size)\<rparr>;
          recs = query_all s limit_stmt;
          row_count = get_rowcount s stmt;
          pages = (if page_size > 0 then \<lceil>real_of_int row_count / real_of_int page_size\<rceil> else 0)
      in \<lparr>records = recs, record_count = row_count, page_count = pages\<rparr>)"

section \<open>The contracts (app/core/product/schema.py, app/utils/base/schema.py)\<close>

text \<open>
  JSON values, for request bodies and response contents. A request body is the \<open>dict\<close>
  decoded from a JSON object: a map from keys to values.
\<close>

datatype json = JNull | JBool bool | JInt int | JStr string | JList "json list"
  | JObj "(string \<times> json) list"

text \<open>
  The type conversions of pydantic (which inputs count as an \<open>int\<close> or a \<open>str\<close>, and the
  message when one does not) belong to the library; they are parameters of the model.
\<close>

record coercion =
  as_int :: "json \<Rightarrow> string + int"
  as_str :: "json \<Rightarrow> string + string"

text \<open>A validated \<open>ProductInSchema\<close>: exactly the four declared fields.\<close>

datatype product_in = ProductInSchema
  (payload_name: string) (payload_description: string) (payload_price: int) (payload_stock: int)

text \<open>A \<open>str\<close> field with \<open>Field(max_length=n)\<close>, read from key \<open>fld\<close> of the body.\<close>

definition str_field :: "coercion \<Rightarrow> nat \<Rightarrow> string \<Rightarrow> (string \<rightharpoonup> json) \<Rightarrow> field_error list + string" where
  "str_field c n fld body =
     (case body fld of
        None \<Rightarrow> Inl [\<lparr>loc = fld, msg = ''Field required''\<rparr>]
      | Some v \<Rightarrow>
         (case as_str c v of
            Inl m \<Rightarrow> Inl [\<lparr>loc = fld, msg = m\<rparr>]
          | Inr x \<Rightarrow>
              if length x > n
              then Inl [\<lparr>loc = fld,
                        msg = ''String should have at most '' @ str_nat n @ '' characters''\<rparr>]
              else Inr x))"

text \<open>An \<open>int\<close> field with \<open>Field(ge=0)\<close>.\<close>

definition int_field_ge0 :: "coercion \<Rightarrow> string \<Rightarrow> (string \<rightharpoonup> json) \<Rightarrow> field_error list + int" where
  "int_field_ge0 c fld body =
     (case body fld of
        None \<Rightarrow> Inl [\<lparr>loc = fld, msg = ''Field required''\<rparr>]
      | Some v \<Rightarrow>
         (case as_int c v of
            Inl m \<Rightarrow> Inl [\<lparr>loc = fld, msg = m\<rparr>]
          | Inr i \<Rightarrow>
              if i \<ge> 0 then Inr i
              else Inl [\<lparr>loc = fld, msg = ''Input should be greater than or equal to 0''\<rparr>]))"

definition errors_in :: "field_error list + 'a \<Rightarrow> field_error list" where
  "errors_in r = (case r of Inl es \<Rightarrow> es | Inr _ \<Rightarrow> [])"

text \<open>
  Validation of a body against \<open>ProductInSchema\<close>: each declared field is read and
  checked, the errors of all fields are collected, and keys that are not declared are
  never read (the model configuration is pydantic's default, which ignores them).
\<close>

definition validate_product_in :: "coercion \<Rightarrow> (string \<rightharpoonup> json) \<Rightarrow> field_error list + product_in" where
  "validate_product_in c body =
     (let n = str_field c 128 ''name'' body;
          d = str_field c 1024 ''description'' body;
          p = int_field_ge0 c ''price'' body;
          k = int_field_ge0 c ''stock'' body
      in case (n, d, p, k) of
           (Inr n', Inr d', Inr p', Inr k') \<Rightarrow> Inr (ProductInSchema n' d' p' k')
         | _ \<Rightarrow> Inl (errors_in n @ errors_in d @ errors_in p @ errors_in k))"

text \<open>
  \<open>PaginationSchema\<close>: \<open>page_size\<close> (default 10, \<open>gt=0\<close>, \<open>le=100\<close>) and
  \<open>page_number\<close> (default 1, \<open>gt=0\<close>, then decremented by the field validator). A
  default is taken as it is, without validation.
\<close>

definition pagination_page_size :: "int option \<Rightarrow> field_error list + int" where
  "pagination_page_size v =
     (case v of
        None \<Rightarrow> Inr 10
      | Some n \<Rightarrow>
          if \<not> n > 0 then Inl [\<lparr>loc = ''page_size'', msg = ''Input should be greater than 0''\<rparr>]
          else if \<not> n \<le> 100
            then Inl [\<lparr>loc = ''page_size'', msg = ''Input should be less than or equal to 100''\<rparr>]
          else Inr n)"

definition decrement_page_number :: "int \<Rightarrow> int" where
  "decrement_page_number page_number = page_number - 1"

definition pagination_page_number :: "int option \<Rightarrow> field_error list + int" where
  "pagination_page_number v =
     (case v of
        None \<Rightarrow> Inr 1
      | Some n \<Rightarrow>
          if \<not> n > 0 then Inl [\<lparr>loc = ''page_number'', msg = ''Input should be greater than 0''\<rparr>]
          else Inr (decrement_page_number n))"

text \<open>The validated pair is \<open>(page_size, page_number)\<close>.\<close>

definition PaginationSchema :: "int option \<Rightarrow> int option \<Rightarrow> field_error list + (int \<times> int)" where
  "PaginationSchema page_size page_number =
     (let a = pagination_page_size page_size; b = pagination_page_number page_number
      in case (a, b) of
           (Inr a', Inr b') \<Rightarrow> Inr (a', b')
         | _ \<Rightarrow> Inl (errors_in a @ errors_in b))"

section \<open>The service (app/utils/base/service.py, app/core/product/service.py)\<close>

text \<open>\<open>ProductService.create\<close>: a new \<open>Product\<close> from the four fields of the payload.\<close>

definition create :: "exc option \<Rightarrow> session \<Rightarrow> product_in \<Rightarrow> (exc + product) \<times> session" where
  "create flt s payload =
     save_object flt s
       \<lparr>id_pk = None, created_at = None, updated_at = None,
        name = payload_name payload,
        description = payload_description payload,
        price = payload_price payload,
        stock = payload_stock payload\<rparr>
       True"

definition service_get :: "session \<Rightarrow> int \<Rightarrow> exc + product" where
  "service_get s model_id = get s model_id"

definition service_delete :: "exc option \<Rightarrow> session \<Rightarrow> int \<Rightarrow> (exc + unit) \<times> session" where
  "service_delete flt s model_id = delete flt s model_id"

definition service_list_paginated :: "session \<Rightarrow> int \<Rightarrow> int \<Rightarrow> paginated" where
  "service_list_paginated s page_number page_size = list_paginated s page_number page_size"

section \<open>The router (app/utils/base/router.py)\<close>

text \<open>
  The handlers of \<open>CoreRouter\<close> with \<open>id_type = int\<close>. A query parameter that the request
  does not give is \<open>None\<close> and takes the default of the signature. The body of
  \<open>create_item\<close> is validated against the input schema before the handler runs; a
  failure is a \<open>RequestValidationError\<close>.
\<close>

definition get_item :: "session \<Rightarrow> int \<Rightarrow> exc + product" where
  "get_item s ident = service_get s ident"

definition create_item :: "coercion \<Rightarrow> exc option \<Rightarrow> session \<Rightarrow> (string \<rightharpoonup> json) \<Rightarrow> (exc + product) \<times> session" where
  "create_item c flt s body =
     (case validate_product_in c body of
        Inl errs \<Rightarrow> (Inl (RequestValidationError errs), s)
      | Inr payload \<Rightarrow> create flt s payload)"

definition delete_item :: "exc option \<Rightarrow> session \<Rightarrow> int \<Rightarrow> (exc + unit) \<times> session" where
  "delete_item flt s ident = service_delete flt s ident"

definition list_items :: "session \<Rightarrow> int option \<Rightarrow> int option \<Rightarrow> exc + paginated" where
  "list_items s page_arg page_size_arg =
     (let page = (case page_arg of None \<Rightarrow> 1 | Some v \<Rightarrow> v);
          page_size = (case page_size_arg of None \<Rightarrow> 10 | Some v \<Rightarrow> v)
      in Inr (service_list_paginated s (page - 1) page_size))"

section \<open>The exception handlers (app/utils/fastapi\_utils/builder.py)\<close>

text \<open>\<open>exc.__class__.__name__\<close>.\<close>

fun class_name :: "exc \<Rightarrow> string" where
  "class_name (ExceptionBase _ _) = ''ExceptionBase''"
| "class_name (NotFoundException _) = ''NotFoundException''"
| "class_name (BadRequestException _) = ''BadRequestException''"
| "class_name (UnauthorizedException _) = ''UnauthorizedException''"
| "class_name (UnprocessableEntity _) = ''UnprocessableEntity''"
| "class_name (ConflictException _) = ''ConflictException''"
| "class_name (SystemException _) = ''SystemException''"
| "class_name (HTTPException _ _) = ''HTTPException''"
| "class_name (RequestValidationError _) = ''RequestValidationError''"
| "class_name (ValidationError _) = ''ValidationError''"
| "class_name (IntegrityError _) = ''IntegrityError''"
| "class_name (OtherError c _) = c"

text \<open>
  \<open>exc.status_code\<close> and \<open>exc.detail\<close>, which \<open>HTTPException\<close> and its subclasses have,
  with the status codes that the constructors of \<open>exception.py\<close> fix; \<open>exc.errors()\<close>,
  which the two validation errors have. \<open>None\<close>: the attribute does not exist.
\<close>

fun status_code_of :: "exc \<Rightarrow> nat option" where
  "status_code_of (ExceptionBase n _) = Some n"
| "status_code_of (NotFoundException _) = Some 404"
| "status_code_of (BadRequestException _) = Some 400"
| "status_code_of (UnauthorizedException _) = Some 401"
| "status_code_of (UnprocessableEntity _) = Some 422"
| "status_code_of (ConflictException _) = Some 409"
| "status_code_of (SystemException _) = Some 500"
| "status_code_of (HTTPException n _) = Some n"
| "status_code_of _ = None"

fun detail_of :: "exc \<Rightarrow> string option" where
  "detail_of (ExceptionBase _ d) = Some d"
| "detail_of (NotFoundException d) = Some d"
| "detail_of (BadRequestException d) = Some d"
| "detail_of (UnauthorizedException d) = Some d"
| "detail_of (UnprocessableEntity d) = Some d"
| "detail_of (ConflictException d) = Some d"
| "detail_of (SystemException d) = Some d"
| "detail_of (HTTPException _ d) = Some d"
| "detail_of _ = None"

fun errors_of :: "exc \<Rightarrow> field_error list option" where
  "errors_of (RequestValidationError es) = Some es"
| "errors_of (ValidationError es) = Some es"
| "errors_of _ = None"

text \<open>
  The classes a handler is registered for, and for each exception those of them that
  occur in the method resolution order of its class, most specific first.
  \<open>ExceptionBase\<close> and its five subclasses derive from \<open>HTTPException\<close>;
  \<open>SystemException\<close> derives from \<open>HTTPException\<close> directly.
\<close>

datatype exc_class = ExceptionBase_class | RequestValidationError_class
  | ValidationError_class | HTTPException_class | Exception_class

fun mro :: "exc \<Rightarrow> exc_class list" where
  "mro (SystemException _) = [HTTPException_class, Exception_class]"
| "mro (HTTPException _ _) = [HTTPException_class, Exception_class]"
| "mro (RequestValidationError _) = [RequestValidationError_class, Exception_class]"
| "mro (ValidationError _) = [ValidationError_class, Exception_class]"
| "mro (IntegrityError _) = [Exception_class]"
| "mro (OtherError _ _) = [Exception_class]"
| "mro _ = [ExceptionBase_class, HTTPException_class, Exception_class]"

record response =
  status_code :: nat
  content :: json

definition JSONResponse :: "nat \<Rightarrow> (string \<times> json) list \<Rightarrow> response" where
  "JSONResponse code items = \<lparr>status_code = code, content = JObj items\<rparr>"

text \<open>One entry of \<open>exc.errors()\<close> as JSON.\<close>

definition error_json :: "field_error \<Rightarrow> json" where
  "error_json e = JObj [(''loc'', JStr (loc e)), (''msg'', JStr (msg e))]"

text \<open>
  The five handlers. A handler that reads an attribute its argument does not have
  raises; this is the result \<open>None\<close>.
\<close>

definition handle_custom_exceptions :: "exc \<Rightarrow> response option" where
  "handle_custom_exceptions e =
     (case (status_code_of e, detail_of e) of
        (Some code, Some d) \<Rightarrow>
          Some (JSONResponse code [(''exception'', JStr (class_name e)), (''detail'', JStr d)])
      | _ \<Rightarrow> None)"

definition handle_validation_errors :: "exc \<Rightarrow> response option" where
  "handle_validation_errors e =
     (case errors_of e of
        Some es \<Rightarrow>
          Some (JSONResponse 422
                 [(''exception'', JStr (class_name e)), (''detail'', JList (map error_json es))])
      | None \<Rightarrow> None)"

definition handle_pydantic_validation_errors :: "exc \<Rightarrow> response option" where
  "handle_pydantic_validation_errors e =
     (case errors_of e of
        Some es \<Rightarrow>
          Some (JSONResponse 422
                 [(''exception'', JStr (class_name e)), (''detail'', JList (map error_json es))])
      | None \<Rightarrow> None)"

definition handle_http_exceptions :: "exc \<Rightarrow> response option" where
  "handle_http_exceptions e =
     (case (status_code_of e, detail_of e) of
        (Some code, Some d) \<Rightarrow>
          Some (JSONResponse code [(''exception'', JStr (class_name e)), (''detail'', JStr d)])
      | _ \<Rightarrow> None)"

definition handle_generic_exception :: "exc \<Rightarrow> response" where
  "handle_generic_exception e =
     JSONResponse 500
       [(''exception'', JStr ''InternalServerError''), (''detail'', JStr ''Internal Server Error'')]"

text \<open>The registrations made by \<open>handle_exceptions\<close>, in its order.\<close>

definition exception_handlers :: "(exc_class \<times> (exc \<Rightarrow> response option)) list" where
  "exception_handlers =
     [(ExceptionBase_class, handle_custom_exceptions),
      (RequestValidationError_class, handle_validation_errors),
      (ValidationError_class, handle_pydantic_validation_errors),
      (HTTPException_class, handle_http_exceptions),
      (Exception_class, \<lambda>e. Some (handle_generic_exception e))]"

text \<open>
  The framework's dispatch: the handler of the first class of the method resolution
  order that has one. An exception with no handler, or one whose handler raises,
  reaches the handler registered for \<open>Exception\<close>.
\<close>

fun lookup_handler :: "exc_class list \<Rightarrow> (exc \<Rightarrow> response option) option" where
  "lookup_handler [] = None"
| "lookup_handler (c # cs) =
     (case map_of exception_handlers c of Some h \<Rightarrow> Some h | None \<Rightarrow> lookup_handler cs)"

definition handle_exceptions :: "exc \<Rightarrow> response" where
  "handle_exceptions e =
     (case lookup_handler (mro e) of
        Some h \<Rightarrow> (case h e of Some r \<Rightarrow> r | None \<Rightarrow> handle_generic_exception e)
      | None \<Rightarrow> handle_generic_exception e)"

section \<open>The application: one request after another over the store\<close>

text \<open>
  \<open>get_session\<close> gives each request a session of its own over the committed table; what
  the request has not committed is dropped when its session is closed.
\<close>

datatype request =
    GET_item int
  | POST_item "string \<rightharpoonup> json"
  | DELETE_item int
  | GET_list "int option" "int option"

datatype reply = Item product | Page paginated | No_content

definition get_session :: "product list \<Rightarrow> int \<Rightarrow> session" where
  "get_session tbl t = \<lparr>table = tbl, new = [], deleted = [], now = t, calls = []\<rparr>"

text \<open>
  One request at store time \<open>t\<close>, with \<open>flt\<close> the failure (if any) that the store reports
  at the request's commit: the handler's outcome and the table afterwards.
\<close>

definition serve :: "coercion \<Rightarrow> exc option \<Rightarrow> int \<Rightarrow> product list \<Rightarrow> request \<Rightarrow> (exc + reply) \<times> product list" where
  "serve c flt t tbl req =
     (let s = get_session tbl t in
      case req of
        GET_item i \<Rightarrow> (map_sum (\<lambda>e. e) Item (get_item s i), tbl)
      | POST_item body \<Rightarrow>
          (case create_item c flt s body of (r, s') \<Rightarrow> (map_sum (\<lambda>e. e) Item r, table s'))
      | DELETE_item i \<Rightarrow>
          (case delete_item flt s i of (r, s') \<Rightarrow> (map_sum (\<lambda>e. e) (\<lambda>_. No_content) r, table s'))
      | GET_list page page_size \<Rightarrow> (map_sum (\<lambda>e. e) Page (list_items s page page_size), tbl))"

fun run :: "coercion \<Rightarrow> product list \<Rightarrow> (exc option \<times> int \<times> request) list \<Rightarrow> product list" where
  "run c tbl [] = tbl"
| "run c tbl ((flt, t, req) # rest) = run c (snd (serve c flt t tbl req)) rest"

section \<open>Concrete inputs\<close>

text \<open>A store that holds the one product of the tests' fixture.\<close>

definition row1 :: product where
  "row1 = \<lparr>id_pk = Some 1, created_at = Some 5, updated_at = Some 5, name = ''Test Product'',
     description = ''A test product description'', price = 1000, stock = 10\<rparr>"

definition store1 :: session where
  "store1 = \<lparr>table = [row1], new = [], deleted = [], now = 6, calls = []\<rparr>"

text \<open>A store with three products.\<close>

definition row2 :: product where
  "row2 = \<lparr>id_pk = Some 2, created_at = Some 6, updated_at = Some 6, name = ''Product 1'',
     description = ''A test product description'', price = 1000, stock = 10\<rparr>"

definition row3 :: product where
  "row3 = \<lparr>id_pk = Some 3, created_at = Some 7, updated_at = Some 7, name = ''Product 2'',
     description = ''A test product description'', price = 1000, stock = 10\<rparr>"

definition store3 :: session where
  "store3 = \<lparr>table = [row1, row2, row3], new = [], deleted = [], now = 8, calls = []\<rparr>"

text \<open>
  A new product with the name of the stored one, and a failure of the store that is not
  an integrity error.
\<close>

definition new_product :: product where
  "new_product = \<lparr>id_pk = None, created_at = None, updated_at = None, name = ''Test Product'',
     description = ''Another description'', price = 500, stock = 1\<rparr>"

definition operational_error :: exc where
  "operational_error = OtherError ''OperationalError'' ''database is locked''"

text \<open>
  Type conversions that accept a JSON integer as \<open>int\<close> and a JSON string as \<open>str\<close>
  and nothing else; the request bodies of the integration tests.
\<close>

definition strict :: coercion where
  "strict =
     \<lparr>as_int = (\<lambda>v. case v of JInt i \<Rightarrow> Inr i | _ \<Rightarrow> Inl ''Input should be a valid integer''),
      as_str = (\<lambda>v. case v of JStr x \<Rightarrow> Inr x | _ \<Rightarrow> Inl ''Input should be a valid string'')\<rparr>"

definition product_data :: "string \<rightharpoonup> json" where
  "product_data =
     [''name'' \<mapsto> JStr ''Test Product'',
      ''description'' \<mapsto> JStr ''A test product description'',
      ''price'' \<mapsto> JInt 1000,
      ''stock'' \<mapsto> JInt 10]"

definition invalid_data :: "string \<rightharpoonup> json" where
  "invalid_data =
     [''name'' \<mapsto> JStr ''Invalid Product'',
      ''description'' \<mapsto> JStr ''This should fail validation'',
      ''price'' \<mapsto> JInt (- 100),
      ''stock'' \<mapsto> JInt (- 1)]"

text \<open>A name of 129 characters, and three requests, the second with that name.\<close>

definition long_name :: string where
  "long_name = replicate 129 (CHR ''x'')"

definition requests :: "(exc option \<times> int \<times> request) list" where
  "requests =
     [(None, 5, POST_item product_data),
      (None, 6, POST_item (product_data(''name'' \<mapsto> JStr long_name))),
      (None, 7, GET_item 1)]"

section \<open>Properties\<close>

subsection \<open>Strings and queries\<close>

lemma str_in_iff: "str_in n h \<longleftrightarrow> (\<exists>pre suf. h = pre @ n @ suf)"
proof (induction h)
  case Nil
  then show ?case by auto
next
  case (Cons c cs)
  then have "str_in n (c # cs) \<longleftrightarrow> prefix n (c # cs) \<or> sublist n cs"
    by (simp add: sublist_def)
  also have "\<dots> \<longleftrightarrow> sublist n (c # cs)" by (simp add: sublist_Cons_right)
  finally show ?case by (simp add: sublist_def)
qed





subsection \<open>Lookup by id\<close>



subsection \<open>Pagination\<close>


lemma list_paginated_records:
  "records (list_paginated s pn ps) =
     (if ps < 0 then drop (nat (pn * ps)) (table s)
      else take (nat ps) (drop (nat (pn * ps)) (table s)))"
  by (simp add: list_paginated_def query_all_def execute_def select_model_def Let_def)





subsection \<open>Deletion\<close>





subsection \<open>The list endpoint\<close>

text \<open>
  C5. The handler \<open>list_items\<close> takes \<open>page\<close> with default 1 and \<open>page_size\<close> with
  default 10, and calls the service's \<open>list_paginated\<close>, which is the repository's, with
  \<open>page_number = page - 1\<close> and \<open>page_size\<close> unchanged; so page 1 is the first page.
\<close>

theorem list_items_page_conversion:
  "list_items s (Some page) (Some page_size) = Inr (service_list_paginated s (page - 1) page_size)
   \<and> service_list_paginated s (page - 1) page_size = list_paginated s (page - 1) page_size
   \<and> list_items s None (Some page_size) = Inr (list_paginated s 0 page_size)
   \<and> list_items s (Some page) None = Inr (list_paginated s (page - 1) 10)
   \<and> list_items s None None = Inr (list_paginated s 0 10)
   \<and> (1 \<le> page \<and> 0 < page_size \<longrightarrow>
        (\<exists>r. list_items s (Some page) (Some page_size) = Inr r
           \<and> records r = take (nat page_size) (drop (nat ((page - 1) * page_size)) (table s))))"
  by (simp add: list_items_def service_list_paginated_def list_paginated_records)

theorem list_items_page_conversion_witness:
  "list_items store3 (Some 1) (Some 2) = Inr (list_paginated store3 0 2)
   \<and> list_items store3 None None = Inr (list_paginated store3 0 10)
   \<and> (\<exists>r. list_items store3 (Some 2) (Some 2) = Inr r \<and> records r = [row3])"
proof -
  have h: "(1::int) \<le> 2 \<and> (0::int) < 2" by simp
  have t: "take (nat 2) (drop (nat ((2 - 1) * 2)) (table store3)) = [row3]"
    by (simp add: store3_def)
  from list_items_page_conversion [of store3 1 2] list_items_page_conversion [of store3 2 2] h t
  show ?thesis by (auto simp: service_list_paginated_def)
qed

text \<open>
  C8. The handler validates neither parameter: for all integers \<open>page\<close> and \<open>page_size\<close>
  it returns the result of \<open>list_paginated\<close> at \<open>page - 1\<close> (which may be negative) and
  \<open>page_size\<close>, never a \<open>RequestValidationError\<close>; this includes every input that
  \<open>PaginationSchema\<close> rejects (\<open>page \<le> 0\<close>, \<open>page_size \<le> 0\<close>, \<open>page_size > 100\<close>), so
  the schema is not applied on this path.
\<close>

theorem list_items_unvalidated:
  "list_items s (Some page) (Some page_size) = Inr (list_paginated s (page - 1) page_size)
   \<and> (\<forall>errs. list_items s (Some page) (Some page_size) \<noteq> Inl (RequestValidationError errs))
   \<and> (page \<le> 0 \<or> page_size \<le> 0 \<or> 100 < page_size \<longrightarrow>
        (\<exists>errs. errs \<noteq> [] \<and> PaginationSchema (Some page_size) (Some page) = Inl errs))
   \<and> (0 < page \<and> 0 < page_size \<and> page_size \<le> 100 \<longrightarrow>
        PaginationSchema (Some page_size) (Some page) = Inr (page_size, page - 1))"
  by (auto simp: list_items_def service_list_paginated_def PaginationSchema_def
      pagination_page_size_def pagination_page_number_def decrement_page_number_def errors_in_def)

theorem list_items_unvalidated_witness:
  "list_items store3 (Some 0) (Some 0) = Inr \<lparr>records = [], record_count = 3, page_count = 0\<rparr>
   \<and> list_items store3 (Some 0) (Some (- 1)) =
       Inr \<lparr>records = [row2, row3], record_count = 3, page_count = 0\<rparr>
   \<and> PaginationSchema (Some 0) (Some 0) =
       Inl [\<lparr>loc = ''page_size'', msg = ''Input should be greater than 0''\<rparr>,
            \<lparr>loc = ''page_number'', msg = ''Input should be greater than 0''\<rparr>]
   \<and> PaginationSchema (Some 2) (Some 1) = Inr (2, 0)"
proof -
  have a: "(0::int) \<le> 0 \<or> (0::int) \<le> 0 \<or> (100::int) < 0" by simp
  have b: "(0::int) < 1 \<and> (0::int) < 2 \<and> (2::int) \<le> 100" by simp
  have 1: "list_paginated store3 (0 - 1) 0 = \<lparr>records = [], record_count = 3, page_count = 0\<rparr>"
    by (simp add: list_paginated_def query_all_def get_rowcount_def execute_def select_model_def
        store3_def Let_def)
  have 2: "list_paginated store3 (0 - 1) (- 1) =
       \<lparr>records = [row2, row3], record_count = 3, page_count = 0\<rparr>"
    by (simp add: list_paginated_def query_all_def get_rowcount_def execute_def select_model_def
        store3_def Let_def)
  from a list_items_unvalidated [of store3 0 0] obtain errs where
    e: "PaginationSchema (Some 0) (Some 0) = Inl errs" by blast
  have 3: "PaginationSchema (Some 0) (Some 0) =
       Inl [\<lparr>loc = ''page_size'', msg = ''Input should be greater than 0''\<rparr>,
            \<lparr>loc = ''page_number'', msg = ''Input should be greater than 0''\<rparr>]"
    by (simp add: PaginationSchema_def pagination_page_size_def pagination_page_number_def
        errors_in_def)
  from list_items_unvalidated [of store3 0 0] list_items_unvalidated [of store3 0 "- 1"]
    list_items_unvalidated [of store3 1 2] b 1 2 3
  show ?thesis by simp
qed

subsection \<open>Saving\<close>

lemma db_commit_raises:
  "db_commit flt s = (Inl e, s') \<Longrightarrow> s' = s\<lparr>calls := calls s @ [Commit]\<rparr>"
  by (auto simp: db_commit_def Let_def split: option.splits sum.splits prod.splits)

lemma save_object_on_IntegrityError:
  assumes "db_commit flt (db_add s obj) = (Inl (IntegrityError m), s')"
  shows "save_object flt s obj refresh =
          (if str_in ''UNIQUE constraint failed'' m \<or> str_in ''duplicate key'' (lower m)
           then Inl (ConflictException ''A record with these details already exists.'')
           else Inl (IntegrityError m),
           db_rollback s')"
  using assms by (simp add: save_object_def Let_def)

lemma save_object_on_other_error:
  assumes "db_commit flt (db_add s obj) = (Inl e, s')" and "\<forall>m. e \<noteq> IntegrityError m"
  shows "save_object flt s obj refresh = (Inl e, s')"
  using assms by (cases e) (simp_all add: save_object_def Let_def)

text \<open>
  C1, as the code has it. When the commit of \<open>save_object\<close> raises an \<open>IntegrityError\<close>
  with message \<open>m\<close>, the session is rolled back (the last call is \<open>Rollback\<close>, nothing
  stays pending, the table is as before) and then the function fails: with
  \<open>ConflictException\<close> and the fixed duplicate message when \<open>m\<close> contains
  "UNIQUE constraint failed" or its lower-case form contains "duplicate key", and with
  the same \<open>IntegrityError\<close> otherwise. When the commit raises an exception of any
  other class, it leaves \<open>save_object\<close> as raised and no rollback is called: the
  handler catches \<open>IntegrityError\<close> only.
\<close>

theorem save_object_commit_failure:
  "(db_commit flt (db_add s obj) = (Inl (IntegrityError m), s') \<longrightarrow>
      save_object flt s obj refresh =
        (if str_in ''UNIQUE constraint failed'' m \<or> str_in ''duplicate key'' (lower m)
         then Inl (ConflictException ''A record with these details already exists.'')
         else Inl (IntegrityError m),
         db_rollback s')
      \<and> calls (db_rollback s') = calls s @ [Add, Commit, Rollback]
      \<and> new (db_rollback s') = [] \<and> deleted (db_rollback s') = []
      \<and> table (db_rollback s') = table s)
   \<and> (db_commit flt (db_add s obj) = (Inl e, s') \<and> (\<forall>m. e \<noteq> IntegrityError m) \<longrightarrow>
      save_object flt s obj refresh = (Inl e, s')
      \<and> calls s' = calls s @ [Add, Commit]
      \<and> new s' = new s @ [obj])"
proof (intro conjI impI)
  assume c: "db_commit flt (db_add s obj) = (Inl (IntegrityError m), s')"
  from db_commit_raises [OF c] have s': "s' = (db_add s obj)\<lparr>calls := calls (db_add s obj) @ [Commit]\<rparr>" .
  show "save_object flt s obj refresh =
        (if str_in ''UNIQUE constraint failed'' m \<or> str_in ''duplicate key'' (lower m)
         then Inl (ConflictException ''A record with these details already exists.'')
         else Inl (IntegrityError m),
         db_rollback s')"
    by (rule save_object_on_IntegrityError [OF c])
  show "calls (db_rollback s') = calls s @ [Add, Commit, Rollback]"
    by (simp add: s' db_rollback_def db_add_def)
  show "new (db_rollback s') = []" by (simp add: db_rollback_def)
  show "deleted (db_rollback s') = []" by (simp add: db_rollback_def)
  show "table (db_rollback s') = table s" by (simp add: s' db_rollback_def db_add_def)
next
  assume h: "db_commit flt (db_add s obj) = (Inl e, s') \<and> (\<forall>m. e \<noteq> IntegrityError m)"
  then have c: "db_commit flt (db_add s obj) = (Inl e, s')" and n: "\<forall>m. e \<noteq> IntegrityError m"
    by simp_all
  from db_commit_raises [OF c] have s': "s' = (db_add s obj)\<lparr>calls := calls (db_add s obj) @ [Commit]\<rparr>" .
  show "save_object flt s obj refresh = (Inl e, s')"
    by (rule save_object_on_other_error [OF c n])
  show "calls s' = calls s @ [Add, Commit]" by (simp add: s' db_add_def)
  show "new s' = new s @ [obj]" by (simp add: s' db_add_def)
qed

theorem save_object_commit_failure_witness:
  "save_object None store1 new_product True =
     (Inl (ConflictException ''A record with these details already exists.''),
      store1\<lparr>calls := [Add, Commit, Rollback]\<rparr>)
   \<and> save_object (Some (IntegrityError ''ERROR: Duplicate Key value'')) store1 new_product True =
     (Inl (ConflictException ''A record with these details already exists.''),
      store1\<lparr>calls := [Add, Commit, Rollback]\<rparr>)
   \<and> save_object None store1 (new_product\<lparr>price := - 1\<rparr>) True =
     (Inl (IntegrityError ''CHECK constraint failed: non_negative_price''),
      store1\<lparr>calls := [Add, Commit, Rollback]\<rparr>)
   \<and> save_object (Some operational_error) store1 new_product True =
     (Inl operational_error, store1\<lparr>new := [new_product], calls := [Add, Commit]\<rparr>)"
proof -
  let ?u = "''UNIQUE constraint failed: product.name''"
  let ?d = "''ERROR: Duplicate Key value''"
  let ?k = "''CHECK constraint failed: non_negative_price''"
  have u: "str_in ''UNIQUE constraint failed'' ?u" by code_simp
  have d: "str_in ''duplicate key'' (lower ?d)" by code_simp
  have k: "\<not> str_in ''UNIQUE constraint failed'' ?k" "\<not> str_in ''duplicate key'' (lower ?k)"
    by code_simp+
  have c1: "db_commit None (db_add store1 new_product) =
      (Inl (IntegrityError ?u), store1\<lparr>new := [new_product], calls := [Add, Commit]\<rparr>)"
    by (simp add: db_commit_def db_add_def store1_def row1_def new_product_def insert_row_def Let_def)
  have c2: "db_commit (Some (IntegrityError ?d)) (db_add store1 new_product) =
      (Inl (IntegrityError ?d), store1\<lparr>new := [new_product], calls := [Add, Commit]\<rparr>)"
    by (simp add: db_commit_def db_add_def store1_def Let_def)
  have c3: "db_commit None (db_add store1 (new_product\<lparr>price := - 1\<rparr>)) =
      (Inl (IntegrityError ?k),
       store1\<lparr>new := [new_product\<lparr>price := - 1\<rparr>], calls := [Add, Commit]\<rparr>)"
    by (simp add: db_commit_def db_add_def store1_def row1_def new_product_def insert_row_def Let_def)
  have c4: "db_commit (Some operational_error) (db_add store1 new_product) =
      (Inl operational_error, store1\<lparr>new := [new_product], calls := [Add, Commit]\<rparr>)
      \<and> (\<forall>m. operational_error \<noteq> IntegrityError m)"
    by (simp add: db_commit_def db_add_def store1_def Let_def operational_error_def)
  have r: "db_rollback (store1\<lparr>new := objs, calls := [Add, Commit]\<rparr>) =
      store1\<lparr>calls := [Add, Commit, Rollback]\<rparr>" for objs
    by (simp add: db_rollback_def store1_def)
  from save_object_commit_failure [of None store1 new_product ?u _ True] c1 u
  have 1: "save_object None store1 new_product True =
     (Inl (ConflictException ''A record with these details already exists.''),
      store1\<lparr>calls := [Add, Commit, Rollback]\<rparr>)"
    by (simp only: r if_True simp_thms)
  from save_object_commit_failure [of "Some (IntegrityError ?d)" store1 new_product ?d _ True] c2 d
  have 2: "save_object (Some (IntegrityError ?d)) store1 new_product True =
     (Inl (ConflictException ''A record with these details already exists.''),
      store1\<lparr>calls := [Add, Commit, Rollback]\<rparr>)"
    by (simp only: r if_True simp_thms)
  from save_object_commit_failure [of None store1 "new_product\<lparr>price := - 1\<rparr>" ?k _ True] c3 k
  have 3: "save_object None store1 (new_product\<lparr>price := - 1\<rparr>) True =
     (Inl (IntegrityError ?k), store1\<lparr>calls := [Add, Commit, Rollback]\<rparr>)"
    by (simp only: r if_False simp_thms)
  from save_object_commit_failure [of "Some operational_error" store1 new_product _ _ True operational_error] c4
  have 4: "save_object (Some operational_error) store1 new_product True =
     (Inl operational_error, store1\<lparr>new := [new_product], calls := [Add, Commit]\<rparr>)"
    by blast
  from 1 2 3 4 show ?thesis by (simp only: simp_thms)
qed

text \<open>
  The store reports a locked database at commit: the error reaches the caller and the
  session has seen no rollback.
\<close>

theorem save_object_no_rollback_counterexample:
  "fst (save_object (Some operational_error) store1 new_product True) = Inl operational_error
   \<and> Rollback \<notin> set (calls (snd (save_object (Some operational_error) store1 new_product True)))"
  by (simp add: save_object_def db_commit_def db_add_def store1_def operational_error_def Let_def)

subsection \<open>Error responses\<close>

lemma handle_exceptions_cases:
  "handle_exceptions e =
     (case (status_code_of e, detail_of e, errors_of e) of
        (Some code, Some d, _) \<Rightarrow>
           JSONResponse code [(''exception'', JStr (class_name e)), (''detail'', JStr d)]
      | (_, _, Some es) \<Rightarrow>
           JSONResponse 422
             [(''exception'', JStr (class_name e)), (''detail'', JList (map error_json es))]
      | _ \<Rightarrow> handle_generic_exception e)"
  by (cases e)
     (simp_all add: handle_exceptions_def exception_handlers_def handle_custom_exceptions_def
       handle_validation_errors_def handle_pydantic_validation_errors_def
       handle_http_exceptions_def)

text \<open>
  C7. The content of every response that the exception handlers produce is an object
  with the two fields \<open>exception\<close> and \<open>detail\<close>, in this order and no other: \<open>detail\<close>
  is a string or the list of the per-field errors, and \<open>exception\<close> is the name of the
  exception's class, except for an exception with no registered class other than
  \<open>Exception\<close>, which gets status 500 and the fixed content with
  \<open>InternalServerError\<close> and \<open>Internal Server Error\<close>, whatever the exception holds.
\<close>

theorem error_response_body:
  "(\<exists>kind detail.
       content (handle_exceptions e) = JObj [(''exception'', JStr kind), (''detail'', detail)]
     \<and> ((\<exists>text. detail = JStr text) \<or> (\<exists>errs. detail = JList (map error_json errs)))
     \<and> kind = (if mro e = [Exception_class] then ''InternalServerError'' else class_name e))
   \<and> (mro e = [Exception_class] \<longrightarrow>
        handle_exceptions e =
          \<lparr>status_code = 500,
           content = JObj [(''exception'', JStr ''InternalServerError''),
                           (''detail'', JStr ''Internal Server Error'')]\<rparr>)"
  by (cases e)
     (auto simp: handle_exceptions_cases handle_generic_exception_def JSONResponse_def)

theorem error_response_body_witness:
  "handle_exceptions (NotFoundException ''Product with id 999999 not found'') =
     \<lparr>status_code = 404,
      content = JObj [(''exception'', JStr ''NotFoundException''),
                      (''detail'', JStr ''Product with id 999999 not found'')]\<rparr>
   \<and> handle_exceptions operational_error =
     \<lparr>status_code = 500,
      content = JObj [(''exception'', JStr ''InternalServerError''),
                      (''detail'', JStr ''Internal Server Error'')]\<rparr>
   \<and> handle_exceptions (IntegrityError ''CHECK constraint failed: non_negative_price'') =
       handle_exceptions operational_error"
proof -
  have a: "mro operational_error = [Exception_class]" by (simp add: operational_error_def)
  have b: "mro (IntegrityError ''CHECK constraint failed: non_negative_price'') = [Exception_class]"
    by simp
  have n: "handle_exceptions (NotFoundException ''Product with id 999999 not found'') =
     \<lparr>status_code = 404,
      content = JObj [(''exception'', JStr ''NotFoundException''),
                      (''detail'', JStr ''Product with id 999999 not found'')]\<rparr>"
    by (simp add: handle_exceptions_cases JSONResponse_def)
  from error_response_body [of operational_error] a
    error_response_body [of "IntegrityError ''CHECK constraint failed: non_negative_price''"] b n
  show ?thesis by simp
qed

subsection \<open>Flushing and validation\<close>

lemma insert_row_Inr:
  "insert_row t tbl obj = Inr row \<Longrightarrow>
     0 \<le> price row \<and> 0 \<le> stock row \<and> name row = name obj \<and> price row = price obj
     \<and> stock row = stock obj \<and> description row = description obj
     \<and> id_pk row = Some (case id_pk obj of Some i \<Rightarrow> i | None \<Rightarrow> next_rowid tbl)"
  by (auto simp: insert_row_def split: if_splits)

lemma insert_row_Inl: "insert_row t tbl obj = Inl e \<Longrightarrow> \<exists>m. e = IntegrityError m"
  by (auto simp: insert_row_def split: if_splits)

lemma insert_row_negative:
  "price obj < 0 \<or> stock obj < 0 \<Longrightarrow> \<exists>m. insert_row t tbl obj = Inl (IntegrityError m)"
  by (auto simp: insert_row_def)

lemma flush_new_Inl: "flush_new t tbl objs = Inl e \<Longrightarrow> \<exists>m. e = IntegrityError m"
proof (induction objs arbitrary: tbl)
  case Nil
  then show ?case by simp
next
  case (Cons obj objs)
  then show ?case
    by (auto split: sum.splits prod.splits dest: insert_row_Inl)
qed

lemma flush_new_Inr:
  "flush_new t tbl objs = Inr (tbl', rows) \<Longrightarrow>
     tbl' = tbl @ rows \<and> length rows = length objs
     \<and> (\<forall>row\<in>set rows. 0 \<le> price row \<and> 0 \<le> stock row \<and> name row \<in> name ` set objs)"
proof (induction objs arbitrary: tbl tbl' rows)
  case Nil
  then show ?case by simp
next
  case (Cons obj objs)
  from Cons.prems obtain row rows' where
    r: "insert_row t tbl obj = Inr row" and
    f: "flush_new t (tbl @ [row]) objs = Inr (tbl', rows')" and
    rs: "rows = row # rows'"
    by (auto split: sum.splits prod.splits)
  from Cons.IH [OF f] insert_row_Inr [OF r] rs show ?case by auto
qed

lemma flush_new_negative:
  "obj \<in> set objs \<Longrightarrow> price obj < 0 \<or> stock obj < 0 \<Longrightarrow>
     \<exists>m. flush_new t tbl objs = Inl (IntegrityError m)"
proof (induction objs arbitrary: tbl)
  case Nil
  then show ?case by simp
next
  case (Cons a objs)
  show ?case
  proof (cases "insert_row t tbl a")
    case (Inl e)
    with insert_row_Inl [OF Inl] show ?thesis by auto
  next
    case (Inr row)
    from insert_row_Inr [OF Inr] have "0 \<le> price a \<and> 0 \<le> stock a" by simp
    with Cons.prems have "obj \<in> set objs" by auto
    from Cons.IH [OF this Cons.prems(2), of "tbl @ [row]"] Inr show ?thesis by auto
  qed
qed

lemma db_commit_table:
  assumes "db_commit flt s = (res, s')"
  shows "set (table s') \<subseteq> set (table s) \<union> {row. 0 \<le> price row \<and> 0 \<le> stock row \<and> name row \<in> name ` set (new s)}"
proof (cases flt)
  case (Some e)
  with assms show ?thesis by (auto simp: db_commit_def Let_def)
next
  case None
  show ?thesis
  proof (cases "flush_new (now s) (table s) (new s)")
    case (Inl e)
    with None assms show ?thesis by (auto simp: db_commit_def Let_def)
  next
    case (Inr p)
    obtain tbl rows where p: "p = (tbl, rows)" by (cases p)
    from flush_new_Inr [OF Inr [unfolded p]] None assms Inr p show ?thesis
      by (auto simp: db_commit_def Let_def delete_rows_def)
  qed
qed

lemma validate_product_in_Inr:
  "validate_product_in c body = Inr payload \<Longrightarrow>
     str_field c 128 ''name'' body = Inr (payload_name payload)
     \<and> str_field c 1024 ''description'' body = Inr (payload_description payload)
     \<and> int_field_ge0 c ''price'' body = Inr (payload_price payload)
     \<and> int_field_ge0 c ''stock'' body = Inr (payload_stock payload)"
  by (auto simp: validate_product_in_def Let_def split: sum.splits)

lemma int_field_ge0_Inr: "int_field_ge0 c fld body = Inr i \<Longrightarrow> 0 \<le> i"
  by (auto simp: int_field_ge0_def split: option.splits sum.splits if_splits)

lemma str_field_Inr: "str_field c n fld body = Inr x \<Longrightarrow> length x \<le> n"
  by (auto simp: str_field_def split: option.splits sum.splits if_splits)

lemma int_field_ge0_negative:
  "body fld = Some v \<Longrightarrow> as_int c v = Inr i \<Longrightarrow> i < 0 \<Longrightarrow>
     int_field_ge0 c fld body =
       Inl [\<lparr>loc = fld, msg = ''Input should be greater than or equal to 0''\<rparr>]"
  by (simp add: int_field_ge0_def)

lemma validate_product_in_errors:
  "int_field_ge0 c ''price'' body = Inl es \<or> int_field_ge0 c ''stock'' body = Inl es \<Longrightarrow>
     \<exists>errs. validate_product_in c body = Inl errs \<and> set es \<subseteq> set errs"
  by (auto simp: validate_product_in_def Let_def errors_in_def split: sum.splits)

subsection \<open>Non-negative price and stock\<close>

text \<open>
  C6, as the code has it. The input contract delivers \<open>price\<close> and \<open>stock\<close> as
  integers and accepts them only when they are \<open>\<ge> 0\<close>: a negative value of either
  field is reported for that field with the message of \<open>ge=0\<close>. The store enforces the
  same bound again: an INSERT succeeds only for a row with both values \<open>\<ge> 0\<close>, a commit
  with a negative value pending raises \<open>IntegrityError\<close> and leaves the table as it was,
  and every commit keeps all rows non-negative. The columns \<open>price\<close> and \<open>stock\<close> each
  declare their CHECK constraint; the type of column \<open>stock\<close> is \<open>Integer\<close> and the
  type of column \<open>price\<close> is \<open>Float\<close>.
\<close>

theorem non_negative_at_two_layers:
  "(validate_product_in c body = Inr payload \<longrightarrow>
      0 \<le> payload_price payload \<and> 0 \<le> payload_stock payload)
   \<and> (fld \<in> {''price'', ''stock''} \<and> body fld = Some v \<and> as_int c v = Inr i \<and> i < 0 \<longrightarrow>
      (\<exists>errs. validate_product_in c body = Inl errs
         \<and> \<lparr>loc = fld, msg = ''Input should be greater than or equal to 0''\<rparr> \<in> set errs))
   \<and> (insert_row t tbl obj = Inr row \<longrightarrow> 0 \<le> price row \<and> 0 \<le> stock row)
   \<and> (price obj < 0 \<or> stock obj < 0 \<longrightarrow>
      (\<exists>m s'. db_commit None (db_add s obj) = (Inl (IntegrityError m), s') \<and> table s' = table s))
   \<and> ((\<forall>r\<in>set (table s). 0 \<le> price r \<and> 0 \<le> stock r) \<and> db_commit flt s = (res, s1) \<longrightarrow>
      (\<forall>r\<in>set (table s1). 0 \<le> price r \<and> 0 \<le> stock r))
   \<and> column_type ''price'' = Some Float
   \<and> map_option col_check (product_column ''price'') =
        Some (Some (''price >= 0'', ''non_negative_price''))
   \<and> column_type ''stock'' = Some Integer
   \<and> map_option col_check (product_column ''stock'') =
        Some (Some (''stock >= 0'', ''non_negative_stock''))"
proof (intro conjI impI)
  assume "validate_product_in c body = Inr payload"
  from validate_product_in_Inr [OF this] show "0 \<le> payload_price payload" "0 \<le> payload_stock payload"
    by (auto dest: int_field_ge0_Inr)
next
  assume h: "fld \<in> {''price'', ''stock''} \<and> body fld = Some v \<and> as_int c v = Inr i \<and> i < 0"
  then have "int_field_ge0 c fld body =
       Inl [\<lparr>loc = fld, msg = ''Input should be greater than or equal to 0''\<rparr>]"
    by (simp add: int_field_ge0_negative)
  with h have "int_field_ge0 c ''price'' body =
         Inl [\<lparr>loc = fld, msg = ''Input should be greater than or equal to 0''\<rparr>]
     \<or> int_field_ge0 c ''stock'' body =
         Inl [\<lparr>loc = fld, msg = ''Input should be greater than or equal to 0''\<rparr>]"
    by auto
  from validate_product_in_errors [OF this]
  show "\<exists>errs. validate_product_in c body = Inl errs
         \<and> \<lparr>loc = fld, msg = ''Input should be greater than or equal to 0''\<rparr> \<in> set errs"
    by auto
next
  assume "insert_row t tbl obj = Inr row"
  from insert_row_Inr [OF this] show "0 \<le> price row" "0 \<le> stock row" by simp_all
next
  assume neg: "price obj < 0 \<or> stock obj < 0"
  have "obj \<in> set (new (db_add s obj))" by (simp add: db_add_def)
  from flush_new_negative [OF this neg] obtain m where
    "flush_new (now (db_add s obj)) (table (db_add s obj)) (new (db_add s obj)) = Inl (IntegrityError m)"
    by blast
  then have "db_commit None (db_add s obj) =
      (Inl (IntegrityError m), (db_add s obj)\<lparr>calls := calls (db_add s obj) @ [Commit]\<rparr>)"
    by (simp add: db_commit_def Let_def)
  then show "\<exists>m s'. db_commit None (db_add s obj) = (Inl (IntegrityError m), s') \<and> table s' = table s"
    by (simp add: db_add_def)
next
  assume h: "(\<forall>r\<in>set (table s). 0 \<le> price r \<and> 0 \<le> stock r) \<and> db_commit flt s = (res, s1)"
  with db_commit_table [of flt s res s1]
  show "\<forall>r\<in>set (table s1). 0 \<le> price r \<and> 0 \<le> stock r" by blast
qed (simp_all add: column_type_def product_column_def product_columns_def)

theorem non_negative_at_two_layers_witness:
  "validate_product_in strict product_data =
      Inr (ProductInSchema ''Test Product'' ''A test product description'' 1000 10)
   \<and> validate_product_in strict invalid_data =
      Inl [\<lparr>loc = ''price'', msg = ''Input should be greater than or equal to 0''\<rparr>,
           \<lparr>loc = ''stock'', msg = ''Input should be greater than or equal to 0''\<rparr>]
   \<and> db_commit None (db_add store1 (new_product\<lparr>name := ''Other'', stock := - 1\<rparr>)) =
      (Inl (IntegrityError ''CHECK constraint failed: non_negative_stock''),
       store1\<lparr>new := [new_product\<lparr>name := ''Other'', stock := - 1\<rparr>], calls := [Add, Commit]\<rparr>)
   \<and> insert_row 9 [row1] (new_product\<lparr>name := ''Other''\<rparr>) =
      Inr (new_product\<lparr>name := ''Other'', id_pk := Some 2, created_at := Some 9,
             updated_at := Some 9\<rparr>)
   \<and> list_all (\<lambda>r. 0 \<le> price r \<and> 0 \<le> stock r)
        (table (snd (db_commit None (db_add store1 (new_product\<lparr>name := ''Other''\<rparr>)))))"
proof -
  let ?bad = "new_product\<lparr>name := ''Other'', stock := - 1\<rparr>"
  let ?good = "new_product\<lparr>name := ''Other''\<rparr>"
  have v1: "validate_product_in strict product_data =
      Inr (ProductInSchema ''Test Product'' ''A test product description'' 1000 10)"
    by (simp add: validate_product_in_def str_field_def int_field_ge0_def strict_def
        product_data_def Let_def)
  have v2: "validate_product_in strict invalid_data =
      Inl [\<lparr>loc = ''price'', msg = ''Input should be greater than or equal to 0''\<rparr>,
           \<lparr>loc = ''stock'', msg = ''Input should be greater than or equal to 0''\<rparr>]"
    by (simp add: validate_product_in_def str_field_def int_field_ge0_def strict_def
        invalid_data_def errors_in_def Let_def)
  have c: "db_commit None (db_add store1 ?bad) =
      (Inl (IntegrityError ''CHECK constraint failed: non_negative_stock''),
       store1\<lparr>new := [?bad], calls := [Add, Commit]\<rparr>)"
    by (simp add: db_commit_def db_add_def store1_def new_product_def insert_row_def Let_def)
  have i: "insert_row 9 [row1] ?good =
      Inr (?good\<lparr>id_pk := Some 2, created_at := Some 9, updated_at := Some 9\<rparr>)"
    by (simp add: insert_row_def new_product_def row1_def next_rowid_def List.map_filter_simps)
  have inv: "\<forall>r\<in>set (table (db_add store1 ?good)). 0 \<le> price r \<and> 0 \<le> stock r"
    by (simp add: db_add_def store1_def row1_def)
  obtain res s1 where d: "db_commit None (db_add store1 ?good) = (res, s1)"
    by (cases "db_commit None (db_add store1 ?good)")
  from non_negative_at_two_layers [of _ _ _ _ _ _ _ _ _ _ "db_add store1 ?good" None res s1] inv d
  have "\<forall>r\<in>set (table s1). 0 \<le> price r \<and> 0 \<le> stock r" by blast
  with d have l: "list_all (\<lambda>r. 0 \<le> price r \<and> 0 \<le> stock r)
        (table (snd (db_commit None (db_add store1 ?good))))"
    by (simp add: list_all_iff)
  from v1 v2 c i l show ?thesis by (simp only: simp_thms)
qed

text \<open>
  The column \<open>price\<close> is declared \<open>Float\<close>, a floating-point type, where the input
  contract declares \<open>int\<close>.
\<close>

theorem price_column_is_float_counterexample:
  "column_type ''price'' = Some Float \<and> column_type ''price'' \<noteq> Some Integer"
  by (simp add: column_type_def product_column_def product_columns_def)

subsection \<open>What a request can write\<close>

lemma fold_max_ge:
  fixes a :: int
  shows "a \<le> fold max xs a \<and> (\<forall>x\<in>set xs. x \<le> fold max xs a)"
proof (induction xs arbitrary: a)
  case Nil
  then show ?case by simp
next
  case (Cons y ys)
  from Cons.IH [of "max y a"] show ?case by auto
qed

lemma set_map_filter_Some:
  "set (List.map_filter f xs) = {y. \<exists>x\<in>set xs. f x = Some y}"
  by (induction xs) (auto simp: List.map_filter_simps split: option.splits)

lemma next_rowid_fresh: "r \<in> set tbl \<Longrightarrow> id_pk r \<noteq> Some (next_rowid tbl)"
proof
  assume r: "r \<in> set tbl" and eq: "id_pk r = Some (next_rowid tbl)"
  then have mem: "next_rowid tbl \<in> set (List.map_filter id_pk tbl)"
    by (auto simp: set_map_filter_Some)
  show False
  proof (cases "List.map_filter id_pk tbl")
    case Nil
    with mem show False by simp
  next
    case (Cons i ids)
    then have n: "next_rowid tbl = fold max ids i + 1" by (simp add: next_rowid_def)
    from mem Cons have "next_rowid tbl = i \<or> next_rowid tbl \<in> set ids" by simp
    with fold_max_ge [of i ids] have "next_rowid tbl \<le> fold max ids i" by auto
    with n show False by simp
  qed
qed

lemma save_object_table:
  assumes "save_object flt s obj refresh = (res, s')"
  shows "set (table s') \<subseteq> set (table s) \<union> {row. name row \<in> name ` set (new s @ [obj])}"
proof -
  obtain r1 s1 where c: "db_commit flt (db_add s obj) = (r1, s1)"
    by (cases "db_commit flt (db_add s obj)")
  from db_commit_table [OF c]
  have t1: "set (table s1) \<subseteq> set (table s) \<union> {row. name row \<in> name ` set (new s @ [obj])}"
    by (auto simp: db_add_def)
  have "table s' = table s1"
    using assms c
    by (auto simp: save_object_def Let_def db_rollback_def split: sum.splits exc.splits if_splits)
  with t1 show ?thesis by simp
qed

lemma delete_table:
  assumes "delete flt s i = (res, s')" and "new s = []"
  shows "set (table s') \<subseteq> set (table s)"
proof (cases "get s i")
  case (Inl e)
  with assms show ?thesis by (simp add: delete_def)
next
  case (Inr obj)
  obtain r1 s1 where c: "db_commit flt (db_delete s obj) = (r1, s1)"
    by (cases "db_commit flt (db_delete s obj)")
  from db_commit_table [OF c] assms(2) have "set (table s1) \<subseteq> set (table s)"
    by (auto simp: db_delete_def)
  moreover from assms(1) Inr c have "s' = s1"
    by (auto simp: delete_def split: sum.splits)
  ultimately show ?thesis by simp
qed

lemma create_item_table:
  assumes "create_item c flt s body = (res, s')" and "new s = []"
  shows "set (table s') \<subseteq> set (table s) \<union> {row. length (name row) \<le> 128}"
proof (cases "validate_product_in c body")
  case (Inl errs)
  with assms show ?thesis by (simp add: create_item_def)
next
  case (Inr payload)
  from validate_product_in_Inr [OF Inr] have "length (payload_name payload) \<le> 128"
    by (auto dest: str_field_Inr)
  moreover from assms(1) Inr obtain obj where
    so: "save_object flt s obj True = (res, s')" and n: "name obj = payload_name payload"
    by (simp add: create_item_def create_def)
  from save_object_table [OF so] assms(2) n
  have "set (table s') \<subseteq> set (table s) \<union> {row. name row = payload_name payload}"
    by auto
  ultimately show ?thesis by auto
qed

lemma serve_names:
  assumes "\<forall>r\<in>set tbl. length (name r) \<le> 128"
  shows "\<forall>r\<in>set (snd (serve c flt t tbl req)). length (name r) \<le> 128"
proof (cases req)
  case (GET_item i)
  with assms show ?thesis by (simp add: serve_def)
next
  case (POST_item body)
  obtain res s' where c: "create_item c flt (get_session tbl t) body = (res, s')"
    by (cases "create_item c flt (get_session tbl t) body")
  from create_item_table [OF c] have "set (table s') \<subseteq> set tbl \<union> {row. length (name row) \<le> 128}"
    by (simp add: get_session_def)
  with assms POST_item c show ?thesis by (auto simp: serve_def)
next
  case (DELETE_item i)
  obtain res s' where c: "delete_item flt (get_session tbl t) i = (res, s')"
    by (cases "delete_item flt (get_session tbl t) i")
  then have "delete flt (get_session tbl t) i = (res, s')"
    by (simp add: delete_item_def service_delete_def)
  from delete_table [OF this] have "set (table s') \<subseteq> set tbl"
    by (simp add: get_session_def)
  with assms DELETE_item c show ?thesis by (auto simp: serve_def)
next
  case (GET_list page page_size)
  with assms show ?thesis by (simp add: serve_def)
qed

lemma run_names:
  "\<forall>r\<in>set tbl. length (name r) \<le> 128 \<Longrightarrow> \<forall>r\<in>set (run c tbl reqs). length (name r) \<le> 128"
proof (induction reqs arbitrary: tbl)
  case Nil
  then show ?case by simp
next
  case (Cons a reqs)
  obtain flt t req where a: "a = (flt, t, req)" by (cases a)
  from serve_names [OF Cons.prems, of c flt t req]
  have "\<forall>r\<in>set (snd (serve c flt t tbl req)). length (name r) \<le> 128" .
  from Cons.IH [OF this] a show ?case by simp
qed

lemma save_object_empty_table:
  assumes "0 \<le> price obj" "0 \<le> stock obj" "id_pk obj = None"
  shows "fst (save_object None (get_session [] t) obj True) =
           Inr (obj\<lparr>id_pk := Some 1,
                     created_at := Some (case created_at obj of Some c \<Rightarrow> c | None \<Rightarrow> t),
                     updated_at := Some (case updated_at obj of Some u \<Rightarrow> u | None \<Rightarrow> t)\<rparr>)"
  using assms
  by (simp add: save_object_def db_commit_def db_add_def get_session_def insert_row_def
      next_rowid_def List.map_filter_simps delete_rows_def flushed_def db_refresh_def Let_def)

lemma validate_product_data:
  "validate_product_in strict product_data =
     Inr (ProductInSchema ''Test Product'' ''A test product description'' 1000 10)"
  by (simp add: validate_product_in_def str_field_def int_field_ge0_def strict_def
      product_data_def Let_def)

lemma create_item_product_data:
  "fst (create_item strict None (get_session [] 5) product_data) = Inr row1
   \<and> table (snd (create_item strict None (get_session [] 5) product_data)) = [row1]"
proof -
  let ?obj = "\<lparr>id_pk = None, created_at = None, updated_at = None, name = ''Test Product'',
     description = ''A test product description'', price = 1000, stock = 10\<rparr>"
  have "fst (save_object None (get_session [] 5) ?obj True) = Inr row1"
    by (simp add: save_object_empty_table row1_def)
  moreover have "table (snd (save_object None (get_session [] 5) ?obj True)) = [row1]"
    by (simp add: save_object_def db_commit_def db_add_def get_session_def insert_row_def
      next_rowid_def List.map_filter_simps delete_rows_def flushed_def db_refresh_def row1_def
      Let_def)
  ultimately show ?thesis
    by (simp add: create_item_def validate_product_data create_def)
qed

lemma serve_product_data:
  "serve strict None 5 [] (POST_item product_data) = (Inr (Item row1), [row1])"
  using create_item_product_data
  by (cases "create_item strict None (get_session [] 5) product_data") (simp add: serve_def)

lemma serve_long_name:
  "serve strict None 6 [row1] (POST_item (product_data(''name'' \<mapsto> JStr long_name))) =
     (Inl (RequestValidationError
            [\<lparr>loc = ''name'', msg = ''String should have at most 128 characters''\<rparr>]),
      [row1])"
  by (simp add: serve_def create_item_def validate_product_in_def str_field_def int_field_ge0_def
      strict_def product_data_def long_name_def errors_in_def get_session_def str_nat.simps Let_def)

text \<open>
  C10. Every request keeps the names of all stored products within 128 characters, so
  after any sequence of requests on the empty table every stored name has at most 128
  characters. The bound comes from the input contract alone: the column \<open>name\<close> is
  declared \<open>String(256)\<close>, and \<open>save_object\<close> stores an object whatever the length of
  its name.
\<close>

theorem stored_names_within_128:
  "((\<forall>r\<in>set tbl. length (name r) \<le> 128) \<longrightarrow>
      (\<forall>r\<in>set (snd (serve c flt t tbl req)). length (name r) \<le> 128))
   \<and> (\<forall>r\<in>set (run c [] reqs). length (name r) \<le> 128)
   \<and> column_type ''name'' = Some (String 256)
   \<and> (0 \<le> price obj \<and> 0 \<le> stock obj \<and> id_pk obj = None \<longrightarrow>
       (\<exists>row. fst (save_object None (get_session [] t) obj True) = Inr row \<and> name row = name obj))"
proof (intro conjI impI)
  assume "\<forall>r\<in>set tbl. length (name r) \<le> 128"
  then show "\<forall>r\<in>set (snd (serve c flt t tbl req)). length (name r) \<le> 128"
    by (rule serve_names)
next
  show "\<forall>r\<in>set (run c [] reqs). length (name r) \<le> 128"
    by (rule run_names) simp
next
  show "column_type ''name'' = Some (String 256)"
    by (simp add: column_type_def product_column_def product_columns_def)
next
  assume "0 \<le> price obj \<and> 0 \<le> stock obj \<and> id_pk obj = None"
  then show "\<exists>row. fst (save_object None (get_session [] t) obj True) = Inr row \<and> name row = name obj"
    by (simp add: save_object_empty_table)
qed

theorem stored_names_within_128_witness:
  "run strict [] requests = [row1]
   \<and> list_all (\<lambda>r. length (name r) \<le> 128) (run strict [] requests)
   \<and> length long_name = 129
   \<and> fst (save_object None (get_session [] 5) (new_product\<lparr>name := long_name\<rparr>) True) =
       Inr (new_product\<lparr>name := long_name, id_pk := Some 1, created_at := Some 5,
              updated_at := Some 5\<rparr>)"
proof -
  let ?obj = "new_product\<lparr>name := long_name\<rparr>"
  have r: "run strict [] requests = [row1]"
    by (simp add: requests_def serve_product_data serve_long_name)
       (simp add: serve_def)
  have h: "0 \<le> price ?obj \<and> 0 \<le> stock ?obj \<and> id_pk ?obj = None"
    by (simp add: new_product_def)
  from stored_names_within_128 [where c = strict and reqs = requests and obj = "?obj" and t = 5] h
  have a: "\<forall>r\<in>set (run strict [] requests). length (name r) \<le> 128"
    and b: "\<exists>row. fst (save_object None (get_session [] 5) ?obj True) = Inr row \<and> name row = name ?obj"
    by blast+
  from h have c: "fst (save_object None (get_session [] 5) ?obj True) =
       Inr (?obj\<lparr>id_pk := Some 1, created_at := Some 5, updated_at := Some 5\<rparr>)"
    by (simp add: save_object_empty_table new_product_def)
  have l: "length long_name = 129" by (simp add: long_name_def)
  from a have "list_all (\<lambda>r. length (name r) \<le> 128) (run strict [] requests)"
    by (simp add: list_all_iff)
  with r c l show ?thesis by (simp only: simp_thms)
qed

subsection \<open>Creation\<close>

lemma str_field_other_key:
  "fld \<noteq> k \<Longrightarrow> str_field c n fld (body(k \<mapsto> v)) = str_field c n fld body"
  by (simp add: str_field_def)

lemma int_field_ge0_other_key:
  "fld \<noteq> k \<Longrightarrow> int_field_ge0 c fld (body(k \<mapsto> v)) = int_field_ge0 c fld body"
  by (simp add: int_field_ge0_def)

lemma validate_product_in_extra:
  assumes "k \<notin> {''name'', ''description'', ''price'', ''stock''}"
  shows "validate_product_in c (body(k \<mapsto> v)) = validate_product_in c body"
proof -
  from assms have "''name'' \<noteq> k" "''description'' \<noteq> k" "''price'' \<noteq> k" "''stock'' \<noteq> k"
    by auto
  then show ?thesis
    by (simp add: validate_product_in_def str_field_other_key int_field_ge0_other_key)
qed

lemma save_object_success:
  assumes so: "save_object flt s obj True = (Inr p, s')"
    and new: "new s = []" and oid: "id_pk obj = None"
  shows "p = obj\<lparr>id_pk := Some (next_rowid (table s)),
                 created_at := Some (case created_at obj of Some c \<Rightarrow> c | None \<Rightarrow> now s),
                 updated_at := Some (case updated_at obj of Some u \<Rightarrow> u | None \<Rightarrow> now s)\<rparr>"
proof -
  obtain r1 s1 where c: "db_commit flt (db_add s obj) = (r1, s1)"
    by (cases "db_commit flt (db_add s obj)")
  show ?thesis
  proof (cases r1)
    case (Inl e)
    with so c show ?thesis
      by (cases e) (auto simp: save_object_def Let_def split: if_splits)
  next
    case (Inr rows)
    with c have flt: "flt = None"
      by (cases flt) (auto simp: db_commit_def Let_def)
    from c Inr flt new obtain row where
      ins: "insert_row (now s) (table s) obj = Inr row" and rows: "rows = [row]"
      and t1: "table s1 = delete_rows (table s @ [row]) (deleted s)"
      by (auto simp: db_commit_def db_add_def Let_def split: sum.splits)
    from ins oid have row: "row = obj\<lparr>id_pk := Some (next_rowid (table s)),
                 created_at := Some (case created_at obj of Some c \<Rightarrow> c | None \<Rightarrow> now s),
                 updated_at := Some (case updated_at obj of Some u \<Rightarrow> u | None \<Rightarrow> now s)\<rparr>"
      by (auto simp: insert_row_def split: if_splits)
    then have rid: "id_pk row = Some (next_rowid (table s))" by simp
    from so c Inr rows have "db_refresh s1 (obj\<lparr>id_pk := id_pk row\<rparr>) = Inr p"
      by (auto simp: save_object_def Let_def flushed_def db_refresh_def
          split: sum.splits exc.splits option.splits)
    then have f: "find (\<lambda>r. id_pk r = id_pk row) (table s1) = Some p"
      by (auto simp: db_refresh_def split: option.splits)
    then have "p \<in> set (table s1)" and pid: "id_pk p = id_pk row"
      by (auto simp: find_Some_iff)
    with t1 have "p \<in> set (table s) \<or> p = row"
      by (auto simp: delete_rows_def split: if_splits)
    with pid rid next_rowid_fresh [of p "table s"] have "p = row" by auto
    with row show ?thesis by simp
  qed
qed

text \<open>
  C9. A key of the body other than the four declared fields, such as \<open>id\<close> or
  \<open>product_id\<close>, changes neither the validated payload nor the outcome of
  \<open>create_item\<close>. When \<open>create_item\<close> succeeds on a session with nothing pending, the
  entity is made of the four validated fields and of what the store assigns: the
  timestamps of the store's clock and the id that the store gives the next row.
\<close>

theorem create_identity_is_server_assigned:
  "(k \<notin> {''name'', ''description'', ''price'', ''stock''} \<longrightarrow>
       validate_product_in c (body(k \<mapsto> v)) = validate_product_in c body
     \<and> create_item c flt s (body(k \<mapsto> v)) = create_item c flt s body)
   \<and> (new s = [] \<and> create_item c flt s body = (Inr p, s') \<longrightarrow>
       (\<exists>payload. validate_product_in c body = Inr payload
          \<and> p = \<lparr>id_pk = Some (next_rowid (table s)),
                  created_at = Some (now s), updated_at = Some (now s),
                  name = payload_name payload,
                  description = payload_description payload,
                  price = payload_price payload,
                  stock = payload_stock payload\<rparr>))"
proof (intro conjI impI)
  assume k: "k \<notin> {''name'', ''description'', ''price'', ''stock''}"
  then show v: "validate_product_in c (body(k \<mapsto> v)) = validate_product_in c body"
    by (rule validate_product_in_extra)
  show "create_item c flt s (body(k \<mapsto> v)) = create_item c flt s body"
    by (simp add: create_item_def v)
next
  assume h: "new s = [] \<and> create_item c flt s body = (Inr p, s')"
  show "\<exists>payload. validate_product_in c body = Inr payload
          \<and> p = \<lparr>id_pk = Some (next_rowid (table s)),
                  created_at = Some (now s), updated_at = Some (now s),
                  name = payload_name payload,
                  description = payload_description payload,
                  price = payload_price payload,
                  stock = payload_stock payload\<rparr>"
  proof (cases "validate_product_in c body")
    case (Inl errs)
    with h show ?thesis by (simp add: create_item_def)
  next
    case (Inr payload)
    let ?obj = "\<lparr>id_pk = None, created_at = None, updated_at = None,
        name = payload_name payload, description = payload_description payload,
        price = payload_price payload, stock = payload_stock payload\<rparr>"
    from h Inr have "save_object flt s ?obj True = (Inr p, s')"
      by (simp add: create_item_def create_def)
    from save_object_success [OF this] h have "p = ?obj\<lparr>id_pk := Some (next_rowid (table s)),
        created_at := Some (now s), updated_at := Some (now s)\<rparr>"
      by simp
    with Inr show ?thesis by simp
  qed
qed

theorem create_identity_is_server_assigned_witness:
  "validate_product_in strict (product_data(''id'' \<mapsto> JInt 42, ''product_id'' \<mapsto> JInt 43)) =
     Inr (ProductInSchema ''Test Product'' ''A test product description'' 1000 10)
   \<and> create_item strict None (get_session [] 5)
        (product_data(''id'' \<mapsto> JInt 42, ''product_id'' \<mapsto> JInt 43)) =
      create_item strict None (get_session [] 5) product_data
   \<and> fst (create_item strict None (get_session [] 5)
        (product_data(''id'' \<mapsto> JInt 42, ''product_id'' \<mapsto> JInt 43))) = Inr row1
   \<and> id_pk row1 = Some (next_rowid [])"
proof -
  let ?b1 = "product_data(''id'' \<mapsto> JInt 42)"
  let ?s = "get_session [] 5"
  have k1: "''id'' \<notin> {''name'', ''description'', ''price'', ''stock''}"
    and k2: "''product_id'' \<notin> {''name'', ''description'', ''price'', ''stock''}"
    by simp_all
  note v = validate_product_data
  have 1: "validate_product_in strict ?b1 = validate_product_in strict product_data
     \<and> create_item strict None ?s ?b1 = create_item strict None ?s product_data"
    by (rule create_identity_is_server_assigned [THEN conjunct1, THEN mp, OF k1])
  have 2: "validate_product_in strict (?b1(''product_id'' \<mapsto> JInt 43)) =
       validate_product_in strict ?b1
     \<and> create_item strict None ?s (?b1(''product_id'' \<mapsto> JInt 43)) =
       create_item strict None ?s ?b1"
    by (rule create_identity_is_server_assigned [THEN conjunct1, THEN mp, OF k2])
  have c: "fst (create_item strict None ?s product_data) = Inr row1"
    using create_item_product_data by simp
  obtain s' where "create_item strict None ?s product_data = (Inr row1, s')"
    using c by (cases "create_item strict None ?s product_data") simp
  then have h: "new ?s = [] \<and> create_item strict None ?s product_data = (Inr row1, s')"
    by (simp add: get_session_def)
  from create_identity_is_server_assigned [THEN conjunct2, THEN mp, OF h]
  obtain payload where "row1 = \<lparr>id_pk = Some (next_rowid (table ?s)),
       created_at = Some (now ?s), updated_at = Some (now ?s),
       name = payload_name payload, description = payload_description payload,
       price = payload_price payload, stock = payload_stock payload\<rparr>"
    by (elim exE conjE)
  then have "id_pk row1 = Some (next_rowid (table ?s))"
    by (rule ssubst) simp
  then have n: "id_pk row1 = Some (next_rowid [])" by (simp add: get_session_def)
  show ?thesis by (simp only: 1 2 v c n simp_thms)
qed

end
